theory Spec2Isabelle
  imports Main "HOL-Library.Word" "HOL-Library.AList"
begin

section \<open>The in-kernel probes of the gtp5g monitor\<close>

text \<open>
  A shallow embedding of \<^verbatim>\<open>internal/ebpf/bpf/upf_monitor.bpf.c\<close>. The BPF maps are the
  state; every helper and hook takes the maps and returns them updated. What the kernel
  supplies to one hook invocation (the CPU it runs on, the clock) is the record
  \<open>hook_env\<close>.
\<close>

type_synonym u8 = "8 word"
type_synonym u16 = "16 word"
type_synonym u32 = "32 word"
type_synonym u64 = "64 word"

subsection \<open>Constants\<close>

definition DIRECTION_UPLINK :: u32 where
  "DIRECTION_UPLINK = 0"

definition DIRECTION_DOWNLINK :: u32 where
  "DIRECTION_DOWNLINK = 1"

definition DROP_REASON_NO_PDR :: u8 where
  "DROP_REASON_NO_PDR = 0"

definition DROP_REASON_INVALID_TEID :: u8 where
  "DROP_REASON_INVALID_TEID = 1"

definition DROP_REASON_QOS :: u8 where
  "DROP_REASON_QOS = 2"

definition DROP_REASON_KERNEL :: u8 where
  "DROP_REASON_KERNEL = 3"

subsection \<open>Data structures\<close>

record traffic_counter =
  packets :: u64
  bytes :: u64
  timestamp :: u64

text \<open>
  \<open>struct drop_event\<close> and \<open>struct packet_event\<close>. The two \<open>pad\<close> bytes are never
  written by the program, so the records carry no field for them; they are part of the
  layout below.
\<close>

record drop_event =
  timestamp :: u64
  teid :: u32
  src_ip :: u32
  dst_ip :: u32
  src_port :: u16
  dst_port :: u16
  pkt_len :: u32
  reason :: u8
  direction :: u8

record packet_event =
  timestamp :: u64
  teid :: u32
  src_ip :: u32
  dst_ip :: u32
  pkt_len :: u32
  direction :: u8
  qfi :: u8

record session_info =
  seid :: u64
  ue_ip :: u32
  upf_ip :: u32
  created_at :: u64

subsection \<open>Layout of the event records\<close>

text \<open>
  A struct declaration as the list of its members in order: name, width of the scalar in
  bytes, number of elements (1 for a scalar, \<open>n\<close> for an array \<open>[n]\<close>). \<open>sizeof_struct\<close>
  is the layout rule of C on the BPF target, where every scalar is aligned to its own
  width: a member starts at the next multiple of its width, and the size of the struct is
  rounded up to a multiple of its widest scalar.
\<close>

type_synonym c_member = "string \<times> nat \<times> nat"

definition drop_event_members :: "c_member list" where
  "drop_event_members =
     [(''timestamp'', 8, 1), (''teid'', 4, 1), (''src_ip'', 4, 1), (''dst_ip'', 4, 1),
      (''src_port'', 2, 1), (''dst_port'', 2, 1), (''pkt_len'', 4, 1),
      (''reason'', 1, 1), (''direction'', 1, 1), (''pad'', 1, 2)]"

definition packet_event_members :: "c_member list" where
  "packet_event_members =
     [(''timestamp'', 8, 1), (''teid'', 4, 1), (''src_ip'', 4, 1), (''dst_ip'', 4, 1),
      (''pkt_len'', 4, 1), (''direction'', 1, 1), (''qfi'', 1, 1), (''pad'', 1, 2)]"

definition align_up :: "nat \<Rightarrow> nat \<Rightarrow> nat" where
  "align_up a n = ((n + a - 1) div a) * a"

fun member_offsets :: "nat \<Rightarrow> c_member list \<Rightarrow> (string \<times> nat) list" where
  "member_offsets off [] = []"
| "member_offsets off ((nm, w, n) # ms) =
     (nm, align_up w off) # member_offsets (align_up w off + w * n) ms"

fun members_end :: "nat \<Rightarrow> c_member list \<Rightarrow> nat" where
  "members_end off [] = off"
| "members_end off ((nm, w, n) # ms) = members_end (align_up w off + w * n) ms"

fun struct_align :: "c_member list \<Rightarrow> nat" where
  "struct_align [] = 1"
| "struct_align ((nm, w, n) # ms) = max w (struct_align ms)"

definition sizeof_struct :: "c_member list \<Rightarrow> nat" where
  "sizeof_struct ms = align_up (struct_align ms) (members_end 0 ms)"

subsection \<open>BPF maps\<close>

text \<open>
  A ring buffer (\<open>BPF_MAP_TYPE_RINGBUF\<close>) that carries records of one size: the records
  committed so far, oldest first, and \<open>room\<close>, the number of further records of that
  size the buffer can take before the consumer drains it. \<open>bpf_ringbuf_reserve\<close> fails
  exactly when there is no room; \<open>bpf_ringbuf_submit\<close> makes the record visible.
\<close>

record 'a ringbuf =
  committed :: "'a list"
  room :: nat

definition bpf_ringbuf_reserve :: "'a ringbuf \<Rightarrow> 'a ringbuf option" where
  "bpf_ringbuf_reserve rb = (if room rb = 0 then None else Some (rb\<lparr>room := room rb - 1\<rparr>))"

definition bpf_ringbuf_submit :: "'a \<Rightarrow> 'a ringbuf \<Rightarrow> 'a ringbuf" where
  "bpf_ringbuf_submit event rb = rb\<lparr>committed := committed rb @ [event]\<rparr>"

definition traffic_stats_max_entries :: nat where
  "traffic_stats_max_entries = 2"

definition teid_stats_max_entries :: nat where
  "teid_stats_max_entries = 4096"

text \<open>
  The maps of the program.
  \<^item> \<open>traffic_stats\<close> (\<open>PERCPU_ARRAY\<close>, 2 entries): every CPU owns a slot for each index;
    the first argument is the CPU.
  \<^item> \<open>drop_events\<close>, \<open>packet_events\<close>: the two ring buffers.
  \<^item> \<open>teid_session_map\<close>, \<open>teid_stats\<close> (\<open>HASH\<close>, 4096 entries): the entries, in order
    of insertion.
  \<^item> \<open>agent_config\<close> (\<open>ARRAY\<close> of \<open>__u32\<close>): a partial map, so that the lookup miss the
    program tests for is a value of the model; the kernel's preallocated array is the
    case where the keys below 4 are all present.
\<close>

record bpf_maps =
  traffic_stats :: "nat \<Rightarrow> u32 \<Rightarrow> traffic_counter"
  drop_events :: "drop_event ringbuf"
  packet_events :: "packet_event ringbuf"
  teid_session_map :: "(u32 \<times> session_info) list"
  teid_stats :: "(u32 \<times> traffic_counter) list"
  agent_config :: "u32 \<rightharpoonup> u32"

text \<open>What the kernel supplies to one invocation: the CPU and \<open>bpf_ktime_get_ns()\<close>.\<close>

record hook_env =
  cpu :: nat
  ktime :: u64

definition bpf_ktime_get_ns :: "hook_env \<Rightarrow> u64" where
  "bpf_ktime_get_ns env = ktime env"

text \<open>\<open>bpf_map_lookup_elem(&traffic_stats, &key)\<close> on the CPU \<open>c\<close>: an array lookup misses
  only out of range.\<close>

definition traffic_stats_lookup :: "bpf_maps \<Rightarrow> nat \<Rightarrow> u32 \<Rightarrow> traffic_counter option" where
  "traffic_stats_lookup s c key =
     (if unat key < traffic_stats_max_entries then Some (traffic_stats s c key) else None)"

text \<open>\<open>bpf_map_update_elem(&teid_stats, &key, &value, BPF_ANY)\<close>: an existing key is
  overwritten; a new key is inserted unless the table already holds \<open>max_entries\<close>
  entries, in which case the call fails and the table is unchanged.\<close>

definition teid_stats_update_elem ::
  "u32 \<Rightarrow> traffic_counter \<Rightarrow> (u32 \<times> traffic_counter) list \<Rightarrow> (u32 \<times> traffic_counter) list" where
  "teid_stats_update_elem key v m =
     (if map_of m key \<noteq> None then AList.update key v m
      else if length m < teid_stats_max_entries then m @ [(key, v)]
      else m)"

subsection \<open>Helper functions\<close>

definition update_traffic_counter :: "hook_env \<Rightarrow> u32 \<Rightarrow> u32 \<Rightarrow> bpf_maps \<Rightarrow> bpf_maps" where
  "update_traffic_counter env dir l s =
     (case traffic_stats_lookup s (cpu env) dir of
        None \<Rightarrow> s
      | Some counter \<Rightarrow>
          s\<lparr>traffic_stats := (traffic_stats s)
               (cpu env := (traffic_stats s (cpu env))
                  (dir := counter\<lparr>packets := packets counter + 1,
                                  bytes := bytes counter + ucast l,
                                  traffic_counter.timestamp := bpf_ktime_get_ns env\<rparr>))\<rparr>)"

definition update_teid_counter :: "hook_env \<Rightarrow> u32 \<Rightarrow> u32 \<Rightarrow> bpf_maps \<Rightarrow> bpf_maps" where
  "update_teid_counter env tid l s =
     (case map_of (teid_stats s) tid of
        Some counter \<Rightarrow>
          s\<lparr>teid_stats :=
              AList.update tid
                (counter\<lparr>packets := packets counter + 1,
                         bytes := bytes counter + ucast l,
                         traffic_counter.timestamp := bpf_ktime_get_ns env\<rparr>)
                (teid_stats s)\<rparr>
      | None \<Rightarrow>
          s\<lparr>teid_stats :=
              teid_stats_update_elem tid
                \<lparr>packets = 1, bytes = ucast l,
                 traffic_counter.timestamp = bpf_ktime_get_ns env\<rparr>
                (teid_stats s)\<rparr>)"

definition emit_drop_event ::
  "hook_env \<Rightarrow> u32 \<Rightarrow> u32 \<Rightarrow> u32 \<Rightarrow> u32 \<Rightarrow> u8 \<Rightarrow> u8 \<Rightarrow> bpf_maps \<Rightarrow> bpf_maps" where
  "emit_drop_event env tid sip dip plen rsn dir s =
     (case bpf_ringbuf_reserve (drop_events s) of
        None \<Rightarrow> s
      | Some rb \<Rightarrow>
          s\<lparr>drop_events :=
              bpf_ringbuf_submit
                \<lparr>drop_event.timestamp = bpf_ktime_get_ns env,
                 drop_event.teid = tid,
                 drop_event.src_ip = sip,
                 drop_event.dst_ip = dip,
                 src_port = 0,
                 dst_port = 0,
                 drop_event.pkt_len = plen,
                 reason = rsn,
                 drop_event.direction = dir\<rparr> rb\<rparr>)"

definition emit_packet_event ::
  "hook_env \<Rightarrow> u32 \<Rightarrow> u32 \<Rightarrow> u32 \<Rightarrow> u32 \<Rightarrow> u8 \<Rightarrow> u8 \<Rightarrow> bpf_maps \<Rightarrow> bpf_maps" where
  "emit_packet_event env tid sip dip plen dir q s =
     (case agent_config s 0 of
        None \<Rightarrow> s
      | Some enabled \<Rightarrow>
          if enabled = 0 then s
          else (case bpf_ringbuf_reserve (packet_events s) of
                  None \<Rightarrow> s
                | Some rb \<Rightarrow>
                    s\<lparr>packet_events :=
                        bpf_ringbuf_submit
                          \<lparr>packet_event.timestamp = bpf_ktime_get_ns env,
                           packet_event.teid = tid,
                           packet_event.src_ip = sip,
                           packet_event.dst_ip = dip,
                           packet_event.pkt_len = plen,
                           packet_event.direction = dir,
                           qfi = q\<rparr> rb\<rparr>))"

subsection \<open>Hooks\<close>

text \<open>
  The kernel objects the hooks receive. Of \<open>struct sk_buff\<close> the program reads \<open>len\<close>
  only; a pointer that may be null is an option. \<open>struct sock\<close> and \<open>struct net_device\<close>
  are never read.
\<close>

record sk_buff =
  len :: u32

typedecl sock

typedecl net_device

record trace_event_raw_kfree_skb =
  skbaddr :: "sk_buff option"
  location :: u64

definition kprobe_gtp5g_encap_recv ::
  "hook_env \<Rightarrow> sock option \<Rightarrow> sk_buff option \<Rightarrow> bpf_maps \<Rightarrow> int \<times> bpf_maps" where
  "kprobe_gtp5g_encap_recv env sk skb s =
     (case skb of
        None \<Rightarrow> (0, s)
      | Some b \<Rightarrow> (0, update_traffic_counter env DIRECTION_UPLINK (len b) s))"

definition kprobe_gtp5g_dev_xmit ::
  "hook_env \<Rightarrow> sk_buff option \<Rightarrow> net_device option \<Rightarrow> bpf_maps \<Rightarrow> int \<times> bpf_maps" where
  "kprobe_gtp5g_dev_xmit env skb dev s =
     (case skb of
        None \<Rightarrow> (0, s)
      | Some b \<Rightarrow> (0, update_traffic_counter env DIRECTION_DOWNLINK (len b) s))"

definition tracepoint_kfree_skb ::
  "hook_env \<Rightarrow> trace_event_raw_kfree_skb \<Rightarrow> bpf_maps \<Rightarrow> int \<times> bpf_maps" where
  "tracepoint_kfree_skb env ctx s =
     (case agent_config s 1 of
        None \<Rightarrow> (0, s)
      | Some enabled \<Rightarrow>
          if enabled = 0 then (0, s)
          else (case skbaddr ctx of
                  None \<Rightarrow> (0, s)
                | Some b \<Rightarrow>
                    if len b < 20 then (0, s)
                    else (0, emit_drop_event env 0 0 0 (len b) DROP_REASON_KERNEL 0 s)))"

subsection \<open>Runs of the hooks\<close>

text \<open>The kernel fires the hooks one after the other on the shared maps.\<close>

datatype hook_call =
  Encap_recv "sock option" "sk_buff option"
| Dev_xmit "sk_buff option" "net_device option"
| Kfree_skb trace_event_raw_kfree_skb

fun fire :: "hook_env \<times> hook_call \<Rightarrow> bpf_maps \<Rightarrow> bpf_maps" where
  "fire (env, Encap_recv sk skb) s = snd (kprobe_gtp5g_encap_recv env sk skb s)"
| "fire (env, Dev_xmit skb dev) s = snd (kprobe_gtp5g_dev_xmit env skb dev s)"
| "fire (env, Kfree_skb ctx) s = snd (tracepoint_kfree_skb env ctx s)"

fun run_hooks :: "(hook_env \<times> hook_call) list \<Rightarrow> bpf_maps \<Rightarrow> bpf_maps" where
  "run_hooks [] s = s"
| "run_hooks (c # cs) s = run_hooks cs (fire c s)"

subsection \<open>Concrete maps\<close>

text \<open>The maps as loaded: counters zero, tables and ring buffers empty, nothing
  configured. The ring buffers are given room for \<open>n\<close> and \<open>m\<close> records.\<close>

definition zero_counter :: traffic_counter where
  "zero_counter = \<lparr>packets = 0, bytes = 0, traffic_counter.timestamp = 0\<rparr>"

definition loaded_maps :: "nat \<Rightarrow> nat \<Rightarrow> bpf_maps" where
  "loaded_maps n m =
     \<lparr>traffic_stats = (\<lambda>c key. zero_counter),
      drop_events = \<lparr>committed = [], room = n\<rparr>,
      packet_events = \<lparr>committed = [], room = m\<rparr>,
      teid_session_map = [],
      teid_stats = [],
      agent_config = Map.empty\<rparr>"

text \<open>A TEID table at capacity: the TEIDs 0 to 4095, each seen once.\<close>

definition full_teid_stats :: "(u32 \<times> traffic_counter) list" where
  "full_teid_stats =
     map (\<lambda>i. (word_of_nat i, \<lparr>packets = 1, bytes = 100, traffic_counter.timestamp = 0\<rparr>))
       [0..<4096]"

definition env0 :: hook_env where
  "env0 = \<lparr>cpu = 0, ktime = 1000\<rparr>"

text \<open>Maps with drop tracing switched on (config key 1 set to 1) and room for \<open>n\<close> drop
  events.\<close>

definition tracing_maps :: "nat \<Rightarrow> bpf_maps" where
  "tracing_maps n = (loaded_maps n 0)\<lparr>agent_config := [1 \<mapsto> 1]\<rparr>"

text \<open>Maps with both features switched on and both ring buffers saturated, each holding one
  committed record.\<close>

definition sample_drop :: drop_event where
  "sample_drop =
     \<lparr>drop_event.timestamp = 5, drop_event.teid = 0, drop_event.src_ip = 0,
      drop_event.dst_ip = 0, src_port = 0, dst_port = 0, drop_event.pkt_len = 64,
      reason = 3, drop_event.direction = 0\<rparr>"

definition sample_packet :: packet_event where
  "sample_packet =
     \<lparr>packet_event.timestamp = 6, packet_event.teid = 9, packet_event.src_ip = 1,
      packet_event.dst_ip = 2, packet_event.pkt_len = 64, packet_event.direction = 1,
      qfi = 5\<rparr>"

definition saturated_maps :: bpf_maps where
  "saturated_maps =
     (loaded_maps 0 0)
       \<lparr>drop_events := \<lparr>committed = [sample_drop], room = 0\<rparr>,
        packet_events := \<lparr>committed = [sample_packet], room = 0\<rparr>,
        agent_config := [0 \<mapsto> 1, 1 \<mapsto> 1]\<rparr>"

section \<open>Properties of the helpers\<close>

lemmas hook_defs =
  kprobe_gtp5g_encap_recv_def kprobe_gtp5g_dev_xmit_def tracepoint_kfree_skb_def

subsection \<open>What each helper leaves alone\<close>

lemma update_traffic_counter_frame:
  "teid_stats (update_traffic_counter env dir l s) = teid_stats s"
  "packet_events (update_traffic_counter env dir l s) = packet_events s"
  "drop_events (update_traffic_counter env dir l s) = drop_events s"
  "agent_config (update_traffic_counter env dir l s) = agent_config s"
  by (simp_all add: update_traffic_counter_def split: option.split)

lemma emit_drop_event_frame:
  "teid_stats (emit_drop_event env tid sip dip plen rsn dir s) = teid_stats s"
  "packet_events (emit_drop_event env tid sip dip plen rsn dir s) = packet_events s"
  "traffic_stats (emit_drop_event env tid sip dip plen rsn dir s) = traffic_stats s"
  "agent_config (emit_drop_event env tid sip dip plen rsn dir s) = agent_config s"
  by (simp_all add: emit_drop_event_def split: option.split)

subsection \<open>The emitters\<close>

lemma emit_drop_event_full:
  "bpf_ringbuf_reserve (drop_events s) = None \<Longrightarrow>
   emit_drop_event env tid sip dip plen rsn dir s = s"
  by (simp add: emit_drop_event_def)

lemma emit_drop_event_committed:
  "bpf_ringbuf_reserve (drop_events s) \<noteq> None \<Longrightarrow>
   committed (drop_events (emit_drop_event env tid sip dip plen rsn dir s)) =
   committed (drop_events s) @
     [\<lparr>drop_event.timestamp = ktime env, drop_event.teid = tid, drop_event.src_ip = sip,
       drop_event.dst_ip = dip, src_port = 0, dst_port = 0, drop_event.pkt_len = plen,
       reason = rsn, drop_event.direction = dir\<rparr>]"
  by (auto simp add: emit_drop_event_def bpf_ringbuf_reserve_def bpf_ringbuf_submit_def
      bpf_ktime_get_ns_def split: if_splits)

lemma emit_packet_event_disabled:
  "agent_config s 0 = None \<or> agent_config s 0 = Some 0 \<Longrightarrow>
   emit_packet_event env tid sip dip plen dir q s = s"
  by (auto simp add: emit_packet_event_def)

lemma emit_packet_event_full:
  "bpf_ringbuf_reserve (packet_events s) = None \<Longrightarrow>
   emit_packet_event env tid sip dip plen dir q s = s"
  by (simp add: emit_packet_event_def split: option.split)

subsection \<open>The drop hook\<close>

lemma tracepoint_kfree_skb_disabled:
  "agent_config s 1 = None \<or> agent_config s 1 = Some 0 \<Longrightarrow>
   tracepoint_kfree_skb env ctx s = (0, s)"
  by (auto simp add: tracepoint_kfree_skb_def)

lemma tracepoint_kfree_skb_null:
  "skbaddr ctx = None \<Longrightarrow> tracepoint_kfree_skb env ctx s = (0, s)"
  by (simp add: tracepoint_kfree_skb_def split: option.split)

lemma tracepoint_kfree_skb_short:
  "skbaddr ctx = Some b \<Longrightarrow> len b < 20 \<Longrightarrow> tracepoint_kfree_skb env ctx s = (0, s)"
  by (simp add: tracepoint_kfree_skb_def split: option.split)

lemma tracepoint_kfree_skb_full:
  "bpf_ringbuf_reserve (drop_events s) = None \<Longrightarrow>
   tracepoint_kfree_skb env ctx s = (0, s)"
  by (simp add: tracepoint_kfree_skb_def emit_drop_event_full split: option.split)

lemma hooks_return_0:
  "fst (kprobe_gtp5g_encap_recv env sk skb s) = 0"
  "fst (kprobe_gtp5g_dev_xmit env skb dev s) = 0"
  "fst (tracepoint_kfree_skb env ctx s) = 0"
  by (simp_all add: hook_defs split: option.split)

subsection \<open>Runs\<close>

lemma fire_frame:
  "teid_stats (fire c s) = teid_stats s \<and> packet_events (fire c s) = packet_events s"
proof (cases c)
  case (Pair env call)
  then show ?thesis
    by (cases call)
      (simp_all add: hook_defs update_traffic_counter_frame emit_drop_event_frame
        split: option.split)
qed

lemma run_hooks_frame:
  "teid_stats (run_hooks cs s) = teid_stats s \<and>
   packet_events (run_hooks cs s) = packet_events s"
  by (induction cs arbitrary: s) (simp_all add: fire_frame)

subsection \<open>The TEID table\<close>

lemma update_teid_counter_miss:
  assumes "map_of (teid_stats s) tid = None"
    and "length (teid_stats s) < teid_stats_max_entries"
  shows "teid_stats (update_teid_counter env tid l s) =
         teid_stats s @ [(tid, \<lparr>packets = 1, bytes = ucast l,
                                traffic_counter.timestamp = ktime env\<rparr>)]"
  using assms
  by (simp add: update_teid_counter_def teid_stats_update_elem_def bpf_ktime_get_ns_def)

lemma update_teid_counter_hit:
  assumes "map_of (teid_stats s) tid = Some c"
  shows "teid_stats (update_teid_counter env tid l s) =
         AList.update tid (c\<lparr>packets := packets c + 1, bytes := bytes c + ucast l,
                              traffic_counter.timestamp := ktime env\<rparr>) (teid_stats s)"
  using assms by (simp add: update_teid_counter_def bpf_ktime_get_ns_def)

lemma unat_ucast_u32: "unat (ucast (l :: u32) :: u64) = unat l"
proof -
  have "unat l < 2 ^ 32" using unsigned_less [of l] by simp
  then have "unat l < 2 ^ 64" by simp
  then show ?thesis by (simp add: unsigned_ucast_eq take_bit_nat_eq_self)
qed

lemma unat_ucast_sum: "unat (ucast (l :: u32) + ucast (l2 :: u32) :: u64) = unat l + unat l2"
proof -
  have "unat l < 2 ^ 32" and "unat l2 < 2 ^ 32"
    using unsigned_less [of l] unsigned_less [of l2] by simp_all
  then have "unat (ucast l :: u64) + unat (ucast l2 :: u64) < 2 ^ LENGTH(64)"
    by (simp add: unat_ucast_u32)
  then have "unat (ucast l + ucast l2 :: u64) = unat (ucast l :: u64) + unat (ucast l2 :: u64)"
    by (simp only: unat_add_lem)
  then show ?thesis by (simp add: unat_ucast_u32)
qed

lemma length_update_present:
  "map_of al k = Some v' \<Longrightarrow> length (AList.update k v al) = length al"
proof -
  assume "map_of al k = Some v'"
  then have "k \<in> set (map fst al)" by (auto dest: map_of_SomeD intro: rev_image_eqI)
  then have "map fst (AList.update k v al) = map fst al" by (simp add: update_keys)
  then have "length (map fst (AList.update k v al)) = length (map fst al)" by simp
  then show ?thesis by simp
qed

lemma full_teid_stats_length: "length full_teid_stats = 4096"
  by (simp add: full_teid_stats_def)

lemma full_teid_stats_miss: "map_of full_teid_stats (4096 :: u32) = None"
proof -
  have "(4096 :: u32) \<noteq> word_of_nat i" if "i < 4096" for i
  proof
    assume "(4096 :: u32) = word_of_nat i"
    then have "unat (4096 :: u32) = unat (word_of_nat i :: u32)" by simp
    with that show False by (simp add: unat_of_nat)
  qed
  then show ?thesis
    by (auto simp add: full_teid_stats_def map_of_eq_None_iff image_iff)
qed

section \<open>The claims\<close>

subsection \<open>Direction counters\<close>

text \<open>
  Claim C1. An uplink entry hook invocation with a non-null packet of length \<open>L\<close> adds 1
  to \<open>packets\<close> and \<open>L\<close> to \<open>bytes\<close> of the uplink counter (key 0) in the copy of the
  CPU the hook runs on; the downlink hook does the same to the downlink counter (key 1).
  The counters are 64-bit, so the additions are those of \<open>__u64\<close>; the 32-bit length is
  widened first.
\<close>

theorem direction_counters_count_packet:
  "packets (traffic_stats (snd (kprobe_gtp5g_encap_recv env sk (Some skb) s))
      (cpu env) DIRECTION_UPLINK)
     = packets (traffic_stats s (cpu env) DIRECTION_UPLINK) + 1 \<and>
   bytes (traffic_stats (snd (kprobe_gtp5g_encap_recv env sk (Some skb) s))
      (cpu env) DIRECTION_UPLINK)
     = bytes (traffic_stats s (cpu env) DIRECTION_UPLINK) + ucast (len skb) \<and>
   packets (traffic_stats (snd (kprobe_gtp5g_dev_xmit env (Some skb) dev s))
      (cpu env) DIRECTION_DOWNLINK)
     = packets (traffic_stats s (cpu env) DIRECTION_DOWNLINK) + 1 \<and>
   bytes (traffic_stats (snd (kprobe_gtp5g_dev_xmit env (Some skb) dev s))
      (cpu env) DIRECTION_DOWNLINK)
     = bytes (traffic_stats s (cpu env) DIRECTION_DOWNLINK) + ucast (len skb)"
  by (simp add: hook_defs update_traffic_counter_def traffic_stats_lookup_def
      traffic_stats_max_entries_def DIRECTION_UPLINK_def DIRECTION_DOWNLINK_def)

subsection \<open>The drop hook\<close>

text \<open>
  Claim C2. With drop tracing enabled (config key 1 present and non-zero) and a non-null
  freed packet: a length below 20 publishes nothing (the maps are unchanged); a length of
  at least 20, when the drop-event ring buffer has room, publishes exactly one record, with
  reason \<open>DROP_REASON_KERNEL\<close>, direction 0, TEID 0 and both addresses 0.
\<close>

theorem kfree_skb_enabled_publishes:
  assumes "agent_config s 1 = Some e" and "e \<noteq> 0" and "skbaddr ctx = Some skb"
  shows "(len skb < 20 \<longrightarrow> tracepoint_kfree_skb env ctx s = (0, s)) \<and>
         (20 \<le> len skb \<and> bpf_ringbuf_reserve (drop_events s) \<noteq> None \<longrightarrow>
            committed (drop_events (snd (tracepoint_kfree_skb env ctx s))) =
            committed (drop_events s) @
              [\<lparr>drop_event.timestamp = ktime env, drop_event.teid = 0,
                drop_event.src_ip = 0, drop_event.dst_ip = 0, src_port = 0, dst_port = 0,
                drop_event.pkt_len = len skb, reason = DROP_REASON_KERNEL,
                drop_event.direction = 0\<rparr>])"
proof (cases "len skb < 20")
  case True
  then have "\<not> 20 \<le> len skb" by (simp add: not_le)
  with True assms show ?thesis by (simp add: tracepoint_kfree_skb_def)
next
  case False
  with assms show ?thesis by (simp add: tracepoint_kfree_skb_def emit_drop_event_committed)
qed

text \<open>At the floor: length 19 publishes nothing, length 20 publishes one record.\<close>

theorem kfree_skb_enabled_publishes_witness:
  "tracepoint_kfree_skb env0 \<lparr>skbaddr = Some \<lparr>len = 19\<rparr>, location = 0\<rparr> (tracing_maps 1)
     = (0, tracing_maps 1) \<and>
   committed (drop_events (snd (tracepoint_kfree_skb env0
       \<lparr>skbaddr = Some \<lparr>len = 20\<rparr>, location = 0\<rparr> (tracing_maps 1)))) =
     [\<lparr>drop_event.timestamp = 1000, drop_event.teid = 0, drop_event.src_ip = 0,
       drop_event.dst_ip = 0, src_port = 0, dst_port = 0, drop_event.pkt_len = 20,
       reason = 3, drop_event.direction = 0\<rparr>]"
  using kfree_skb_enabled_publishes
      [of "tracing_maps 1" 1 "\<lparr>skbaddr = Some \<lparr>len = 19\<rparr>, location = 0\<rparr>"
          "\<lparr>len = 19\<rparr>" env0]
    kfree_skb_enabled_publishes
      [of "tracing_maps 1" 1 "\<lparr>skbaddr = Some \<lparr>len = 20\<rparr>, location = 0\<rparr>"
          "\<lparr>len = 20\<rparr>" env0]
  by (simp add: tracing_maps_def loaded_maps_def env0_def bpf_ringbuf_reserve_def
      DROP_REASON_KERNEL_def)

text \<open>
  Claim C3. With drop tracing disabled (config key 1 absent, or present and 0) the drop
  hook returns 0 at once and leaves the maps as they are, so no drop event is published,
  whatever the freed packet (null or not, of any length).
\<close>

theorem kfree_skb_disabled_no_event:
  assumes "agent_config s 1 = None \<or> agent_config s 1 = Some 0"
  shows "tracepoint_kfree_skb env ctx s = (0, s)"
  using assms by (auto simp add: tracepoint_kfree_skb_def)

theorem kfree_skb_disabled_no_event_witness:
  "tracepoint_kfree_skb env0 \<lparr>skbaddr = Some \<lparr>len = 1500\<rparr>, location = 0\<rparr> (loaded_maps 8 8)
     = (0, loaded_maps 8 8) \<and>
   tracepoint_kfree_skb env0 \<lparr>skbaddr = Some \<lparr>len = 1500\<rparr>, location = 0\<rparr>
     ((loaded_maps 8 8)\<lparr>agent_config := [1 \<mapsto> 0]\<rparr>)
     = (0, (loaded_maps 8 8)\<lparr>agent_config := [1 \<mapsto> 0]\<rparr>)"
  using kfree_skb_disabled_no_event
      [of "loaded_maps 8 8" env0 "\<lparr>skbaddr = Some \<lparr>len = 1500\<rparr>, location = 0\<rparr>"]
    kfree_skb_disabled_no_event
      [of "(loaded_maps 8 8)\<lparr>agent_config := [1 \<mapsto> 0]\<rparr>" env0
          "\<lparr>skbaddr = Some \<lparr>len = 1500\<rparr>, location = 0\<rparr>"]
  by (simp add: loaded_maps_def)

subsection \<open>TEID counters\<close>

text \<open>
  Claim C4, as amended. When \<open>update_teid_counter\<close> is called with a TEID that is not in
  the TEID table, and the table holds fewer than its 4096 entries, it creates the entry
  with \<open>packets = 1\<close> and \<open>bytes = L\<close>; a second call with the same TEID and length \<open>L2\<close>
  turns it into \<open>packets = 2\<close> and \<open>bytes = L + L2\<close> (no wrap-around: the sum of two 32-bit
  lengths fits 64 bits). Every observation of a TEID that has an entry, in any state of the
  table, increments that entry in place: \<open>packets\<close> grows by 1, \<open>bytes\<close> by the length,
  the timestamp is refreshed, and the table keeps its length.
\<close>

theorem update_teid_counter_first_second:
  assumes "map_of (teid_stats s) tid = None"
    and "length (teid_stats s) < teid_stats_max_entries"
  shows "map_of (teid_stats (update_teid_counter env tid l s)) tid =
           Some \<lparr>packets = 1, bytes = ucast l, traffic_counter.timestamp = ktime env\<rparr> \<and>
         map_of (teid_stats (update_teid_counter env2 tid l2
             (update_teid_counter env tid l s))) tid =
           Some \<lparr>packets = 2, bytes = ucast l + ucast l2,
                 traffic_counter.timestamp = ktime env2\<rparr> \<and>
         unat (ucast l + ucast l2 :: u64) = unat l + unat l2 \<and>
         length (teid_stats (update_teid_counter env2 tid l2
             (update_teid_counter env tid l s))) =
           length (teid_stats (update_teid_counter env tid l s)) \<and>
         (map_of (teid_stats t) k = Some c \<longrightarrow>
            map_of (teid_stats (update_teid_counter env3 k l3 t)) k =
              Some (c\<lparr>packets := packets c + 1, bytes := bytes c + ucast l3,
                      traffic_counter.timestamp := ktime env3\<rparr>) \<and>
            length (teid_stats (update_teid_counter env3 k l3 t)) = length (teid_stats t))"
proof -
  let ?c = "\<lparr>packets = 1, bytes = ucast l, traffic_counter.timestamp = ktime env\<rparr>"
  let ?s1 = "update_teid_counter env tid l s"
  have first: "teid_stats ?s1 = teid_stats s @ [(tid, ?c)]"
    using assms by (rule update_teid_counter_miss)
  then have seen: "map_of (teid_stats ?s1) tid = Some ?c"
    using assms(1) by (simp add: map_of_append map_add_def)
  have second: "teid_stats (update_teid_counter env2 tid l2 ?s1) =
        AList.update tid (?c\<lparr>packets := packets ?c + 1, bytes := bytes ?c + ucast l2,
                               traffic_counter.timestamp := ktime env2\<rparr>) (teid_stats ?s1)"
    using seen by (rule update_teid_counter_hit)
  have twice: "map_of (teid_stats (update_teid_counter env2 tid l2 ?s1)) tid =
        Some \<lparr>packets = 2, bytes = ucast l + ucast l2,
              traffic_counter.timestamp = ktime env2\<rparr>"
    unfolding second by (simp add: update_conv')
  have same: "length (teid_stats (update_teid_counter env2 tid l2 ?s1)) =
        length (teid_stats ?s1)"
    unfolding second using seen by (rule length_update_present)
  have later: "map_of (teid_stats (update_teid_counter env3 k l3 t)) k =
        Some (c\<lparr>packets := packets c + 1, bytes := bytes c + ucast l3,
                traffic_counter.timestamp := ktime env3\<rparr>) \<and>
      length (teid_stats (update_teid_counter env3 k l3 t)) = length (teid_stats t)"
    if hit: "map_of (teid_stats t) k = Some c"
  proof -
    have "teid_stats (update_teid_counter env3 k l3 t) =
        AList.update k (c\<lparr>packets := packets c + 1, bytes := bytes c + ucast l3,
                            traffic_counter.timestamp := ktime env3\<rparr>) (teid_stats t)"
      using hit by (rule update_teid_counter_hit)
    then show ?thesis
      using hit by (simp add: update_conv' length_update_present)
  qed
  from seen twice same later show ?thesis by (simp add: unat_ucast_sum)
qed

text \<open>Three observations of TEID 7, of 100, 60 and 40 bytes, on the maps as loaded.\<close>

theorem update_teid_counter_first_second_witness:
  "map_of (teid_stats (update_teid_counter env0 7 100 (loaded_maps 0 0))) 7 =
     Some \<lparr>packets = 1, bytes = 100, traffic_counter.timestamp = 1000\<rparr> \<and>
   map_of (teid_stats (update_teid_counter \<lparr>cpu = 1, ktime = 2000\<rparr> 7 60
      (update_teid_counter env0 7 100 (loaded_maps 0 0)))) 7 =
     Some \<lparr>packets = 2, bytes = 160, traffic_counter.timestamp = 2000\<rparr> \<and>
   map_of (teid_stats (update_teid_counter \<lparr>cpu = 0, ktime = 3000\<rparr> 7 40
      (update_teid_counter \<lparr>cpu = 1, ktime = 2000\<rparr> 7 60
        (update_teid_counter env0 7 100 (loaded_maps 0 0))))) 7 =
     Some \<lparr>packets = 3, bytes = 200, traffic_counter.timestamp = 3000\<rparr> \<and>
   length (teid_stats (update_teid_counter \<lparr>cpu = 0, ktime = 3000\<rparr> 7 40
      (update_teid_counter \<lparr>cpu = 1, ktime = 2000\<rparr> 7 60
        (update_teid_counter env0 7 100 (loaded_maps 0 0))))) = 1"
proof -
  let ?s2 = "update_teid_counter \<lparr>cpu = 1, ktime = 2000\<rparr> 7 60
      (update_teid_counter env0 7 100 (loaded_maps 0 0))"
  let ?c2 = "\<lparr>packets = 2, bytes = 160, traffic_counter.timestamp = 2000\<rparr>"
  note inst = update_teid_counter_first_second
      [where s = "loaded_maps 0 0" and tid = 7 and env = env0 and l = 100
         and ?env2.0 = "\<lparr>cpu = 1, ktime = 2000\<rparr>" and ?l2.0 = 60
         and t = ?s2 and k = 7 and c = ?c2
         and ?env3.0 = "\<lparr>cpu = 0, ktime = 3000\<rparr>" and ?l3.0 = 40]
  have miss: "map_of (teid_stats (loaded_maps 0 0)) (7 :: u32) = None"
    and below: "length (teid_stats (loaded_maps 0 0)) < teid_stats_max_entries"
    by (simp_all add: loaded_maps_def teid_stats_max_entries_def)
  have len1: "length (teid_stats (update_teid_counter env0 7 100 (loaded_maps 0 0))) = 1"
    by (simp add: update_teid_counter_def teid_stats_update_elem_def loaded_maps_def
        teid_stats_max_entries_def)
  from inst [OF miss below] len1 show ?thesis by (simp add: env0_def)
qed

text \<open>
  The claim as first stated fails on a table at capacity: TEID 4096 is not among the 4096
  entries of \<open>full_teid_stats\<close>, and after \<open>update_teid_counter\<close> is called for it with
  length 100 it still has no entry, since the insertion into the full table fails and the
  program does not look at the result.
\<close>

theorem update_teid_counter_full_table:
  "map_of full_teid_stats 4096 = None \<and>
   map_of (teid_stats (update_teid_counter env0 4096 100
      ((loaded_maps 0 0)\<lparr>teid_stats := full_teid_stats\<rparr>))) 4096 = None"
  by (simp add: update_teid_counter_def teid_stats_update_elem_def full_teid_stats_miss
      full_teid_stats_length teid_stats_max_entries_def)

subsection \<open>Configuration\<close>

text \<open>
  Claim C5. An absent config entry and a zero entry both mean the feature is off: with
  config key 0 absent or 0, \<open>emit_packet_event\<close> leaves the maps unchanged (it publishes
  nothing) for all of its arguments; with config key 1 absent or 0 the drop hook does
  nothing; in particular both hold under an empty config table.
\<close>

theorem config_absent_or_zero_disables:
  "(agent_config s 0 = None \<or> agent_config s 0 = Some 0 \<longrightarrow>
      emit_packet_event env tid sip dip plen dir q s = s) \<and>
   (agent_config s 1 = None \<or> agent_config s 1 = Some 0 \<longrightarrow>
      tracepoint_kfree_skb env ctx s = (0, s)) \<and>
   (agent_config s = Map.empty \<longrightarrow>
      emit_packet_event env tid sip dip plen dir q s = s \<and>
      tracepoint_kfree_skb env ctx s = (0, s))"
  by (simp add: emit_packet_event_disabled tracepoint_kfree_skb_disabled)

text \<open>Under the empty table, and under a table with both keys 0, with room in both ring
  buffers and a packet above the noise floor.\<close>

theorem config_absent_or_zero_disables_witness:
  "emit_packet_event env0 9 1 2 64 1 5 (loaded_maps 8 8) = loaded_maps 8 8 \<and>
   tracepoint_kfree_skb env0 \<lparr>skbaddr = Some \<lparr>len = 1500\<rparr>, location = 0\<rparr> (loaded_maps 8 8)
     = (0, loaded_maps 8 8) \<and>
   emit_packet_event env0 9 1 2 64 1 5
       ((loaded_maps 8 8)\<lparr>agent_config := [0 \<mapsto> 0, 1 \<mapsto> 0]\<rparr>)
     = (loaded_maps 8 8)\<lparr>agent_config := [0 \<mapsto> 0, 1 \<mapsto> 0]\<rparr> \<and>
   tracepoint_kfree_skb env0 \<lparr>skbaddr = Some \<lparr>len = 1500\<rparr>, location = 0\<rparr>
       ((loaded_maps 8 8)\<lparr>agent_config := [0 \<mapsto> 0, 1 \<mapsto> 0]\<rparr>)
     = (0, (loaded_maps 8 8)\<lparr>agent_config := [0 \<mapsto> 0, 1 \<mapsto> 0]\<rparr>)"
  using config_absent_or_zero_disables
      [of "loaded_maps 8 8" env0 9 1 2 64 1 5
          "\<lparr>skbaddr = Some \<lparr>len = 1500\<rparr>, location = 0\<rparr>"]
    config_absent_or_zero_disables
      [of "(loaded_maps 8 8)\<lparr>agent_config := [0 \<mapsto> 0, 1 \<mapsto> 0]\<rparr>" env0 9 1 2 64 1 5
          "\<lparr>skbaddr = Some \<lparr>len = 1500\<rparr>, location = 0\<rparr>"]
  by (simp add: loaded_maps_def)

subsection \<open>Publishing\<close>

text \<open>
  Claim C6. On either channel, when reserving space for the record fails, the emitter
  returns with the maps exactly as they were: nothing is retried, nothing is reported, and
  the records committed before are untouched.
\<close>

theorem reserve_failure_abandons_publish:
  "(bpf_ringbuf_reserve (drop_events s) = None \<longrightarrow>
      emit_drop_event env tid sip dip plen rsn dir s = s) \<and>
   (bpf_ringbuf_reserve (packet_events s) = None \<longrightarrow>
      emit_packet_event env tid' sip' dip' plen' dir' q s = s)"
  by (simp add: emit_drop_event_full emit_packet_event_full)

theorem reserve_failure_abandons_publish_witness:
  "committed (drop_events (emit_drop_event env0 0 0 0 1500 3 0 saturated_maps))
     = [sample_drop] \<and>
   emit_drop_event env0 0 0 0 1500 3 0 saturated_maps = saturated_maps \<and>
   committed (packet_events (emit_packet_event env0 9 1 2 64 1 5 saturated_maps))
     = [sample_packet] \<and>
   emit_packet_event env0 9 1 2 64 1 5 saturated_maps = saturated_maps"
  using reserve_failure_abandons_publish [of saturated_maps env0 0 0 0 1500 3 0 9 1 2 64 1 5]
  by (simp add: saturated_maps_def loaded_maps_def bpf_ringbuf_reserve_def)

subsection \<open>Failure policy\<close>

text \<open>
  Claim C7. Each of the three hooks returns 0 on every path. With a null packet the hook
  returns with the maps unchanged; so does the drop hook when drop tracing is disabled,
  when the packet is shorter than 20 bytes, and when the drop-event ring buffer is full.
\<close>

theorem hooks_return_success:
  "fst (kprobe_gtp5g_encap_recv env sk skb s) = 0 \<and>
   fst (kprobe_gtp5g_dev_xmit env skb dev s) = 0 \<and>
   fst (tracepoint_kfree_skb env ctx s) = 0 \<and>
   kprobe_gtp5g_encap_recv env sk None s = (0, s) \<and>
   kprobe_gtp5g_dev_xmit env None dev s = (0, s) \<and>
   (skbaddr ctx = None \<longrightarrow> tracepoint_kfree_skb env ctx s = (0, s)) \<and>
   (agent_config s 1 = None \<or> agent_config s 1 = Some 0 \<longrightarrow>
      tracepoint_kfree_skb env ctx s = (0, s)) \<and>
   ((\<exists>b. skbaddr ctx = Some b \<and> len b < 20) \<longrightarrow>
      tracepoint_kfree_skb env ctx s = (0, s)) \<and>
   (bpf_ringbuf_reserve (drop_events s) = None \<longrightarrow>
      tracepoint_kfree_skb env ctx s = (0, s))"
proof -
  have kprobes: "kprobe_gtp5g_encap_recv env sk None s = (0, s)"
    "kprobe_gtp5g_dev_xmit env None dev s = (0, s)"
    by (simp_all add: kprobe_gtp5g_encap_recv_def kprobe_gtp5g_dev_xmit_def)
  show ?thesis
    using kprobes tracepoint_kfree_skb_null [of ctx env s]
      tracepoint_kfree_skb_short [of ctx _ env s]
    by (auto simp add: hooks_return_0 tracepoint_kfree_skb_disabled
        tracepoint_kfree_skb_full)
qed

text \<open>A null packet and a full ring buffer with tracing on; a 19-byte packet with tracing on
  and room; tracing not configured.\<close>

theorem hooks_return_success_witness:
  "tracepoint_kfree_skb env0 \<lparr>skbaddr = None, location = 0\<rparr> saturated_maps
     = (0, saturated_maps) \<and>
   tracepoint_kfree_skb env0 \<lparr>skbaddr = Some \<lparr>len = 1500\<rparr>, location = 0\<rparr> saturated_maps
     = (0, saturated_maps) \<and>
   tracepoint_kfree_skb env0 \<lparr>skbaddr = Some \<lparr>len = 19\<rparr>, location = 0\<rparr> (tracing_maps 1)
     = (0, tracing_maps 1) \<and>
   tracepoint_kfree_skb env0 \<lparr>skbaddr = Some \<lparr>len = 1500\<rparr>, location = 0\<rparr> (loaded_maps 8 8)
     = (0, loaded_maps 8 8)"
  using hooks_return_success
      [of env0 None None saturated_maps None "\<lparr>skbaddr = None, location = 0\<rparr>"]
    hooks_return_success
      [of env0 None None saturated_maps None
          "\<lparr>skbaddr = Some \<lparr>len = 1500\<rparr>, location = 0\<rparr>"]
    hooks_return_success
      [of env0 None None "tracing_maps 1" None
          "\<lparr>skbaddr = Some \<lparr>len = 19\<rparr>, location = 0\<rparr>"]
    hooks_return_success
      [of env0 None None "loaded_maps 8 8" None
          "\<lparr>skbaddr = Some \<lparr>len = 1500\<rparr>, location = 0\<rparr>"]
  by (simp add: saturated_maps_def tracing_maps_def loaded_maps_def bpf_ringbuf_reserve_def)

subsection \<open>Record sizes\<close>

text \<open>
  Claim C8, as amended. The record published on the drop-event channel occupies exactly 32
  bytes (8+4+4+4+2+2+4+1+1+2 padding), and the record published on the packet-event
  channel occupies exactly 32 bytes: its members (8+4+4+4+4+1+1+2 padding) end at byte 28
  and 4 bytes of tail padding follow, the struct being aligned to its 8-byte timestamp.
  Every member is at the fixed offset its predecessors' widths imply.
\<close>

theorem event_record_layout:
  "sizeof_struct drop_event_members = 32 \<and>
   sizeof_struct packet_event_members = 32 \<and>
   member_offsets 0 drop_event_members =
     [(''timestamp'', 0), (''teid'', 8), (''src_ip'', 12), (''dst_ip'', 16),
      (''src_port'', 20), (''dst_port'', 22), (''pkt_len'', 24),
      (''reason'', 28), (''direction'', 29), (''pad'', 30)] \<and>
   member_offsets 0 packet_event_members =
     [(''timestamp'', 0), (''teid'', 8), (''src_ip'', 12), (''dst_ip'', 16),
      (''pkt_len'', 20), (''direction'', 24), (''qfi'', 25), (''pad'', 26)] \<and>
   members_end 0 drop_event_members = 32 \<and>
   members_end 0 packet_event_members = 28"
  by (simp add: sizeof_struct_def drop_event_members_def packet_event_members_def
      align_up_def)

text \<open>The sizes first claimed, 40 and 28 bytes, are not the sizes of the two structs.\<close>

theorem event_record_sizes_differ:
  "sizeof_struct drop_event_members \<noteq> 40 \<and> sizeof_struct packet_event_members \<noteq> 28"
  by (simp add: sizeof_struct_def drop_event_members_def packet_event_members_def
      align_up_def)

subsection \<open>What no hook touches\<close>

text \<open>
  Claim C9. No invocation of any of the three hooks changes the TEID table or the
  packet-event ring buffer; hence after any run of hook invocations on the maps as loaded
  the TEID table is empty and no packet event has been committed.
\<close>

theorem hooks_leave_teid_stats_and_packet_events:
  "teid_stats (snd (kprobe_gtp5g_encap_recv env sk skb s)) = teid_stats s \<and>
   packet_events (snd (kprobe_gtp5g_encap_recv env sk skb s)) = packet_events s \<and>
   teid_stats (snd (kprobe_gtp5g_dev_xmit env skb dev s)) = teid_stats s \<and>
   packet_events (snd (kprobe_gtp5g_dev_xmit env skb dev s)) = packet_events s \<and>
   teid_stats (snd (tracepoint_kfree_skb env ctx s)) = teid_stats s \<and>
   packet_events (snd (tracepoint_kfree_skb env ctx s)) = packet_events s \<and>
   teid_stats (run_hooks cs (loaded_maps n m)) = [] \<and>
   committed (packet_events (run_hooks cs (loaded_maps n m))) = []"
proof -
  have "teid_stats (fire (env, Encap_recv sk skb) s) = teid_stats s"
    "packet_events (fire (env, Encap_recv sk skb) s) = packet_events s"
    "teid_stats (fire (env, Dev_xmit skb dev) s) = teid_stats s"
    "packet_events (fire (env, Dev_xmit skb dev) s) = packet_events s"
    "teid_stats (fire (env, Kfree_skb ctx) s) = teid_stats s"
    "packet_events (fire (env, Kfree_skb ctx) s) = packet_events s"
    by (simp_all only: fire_frame)
  moreover have "teid_stats (run_hooks cs (loaded_maps n m)) = []"
    "committed (packet_events (run_hooks cs (loaded_maps n m))) = []"
    by (simp_all add: run_hooks_frame loaded_maps_def)
  ultimately show ?thesis by simp
qed

subsection \<open>Ports of a drop event\<close>

text \<open>
  Claim C10. Whatever its arguments, the records \<open>emit_drop_event\<close> adds to the drop-event
  channel (one when the reservation succeeds, none otherwise) have \<open>src_port = 0\<close> and
  \<open>dst_port = 0\<close>; so have the records the drop hook publishes through it.
\<close>

theorem drop_event_ports_zero:
  "(\<exists>es. committed (drop_events (emit_drop_event env tid sip dip plen rsn dir s)) =
           committed (drop_events s) @ es \<and>
         list_all (\<lambda>e. src_port e = 0 \<and> dst_port e = 0) es \<and>
         (bpf_ringbuf_reserve (drop_events s) \<noteq> None \<longrightarrow> length es = 1)) \<and>
   (\<exists>es. committed (drop_events (snd (tracepoint_kfree_skb env ctx s))) =
           committed (drop_events s) @ es \<and>
         list_all (\<lambda>e. src_port e = 0 \<and> dst_port e = 0) es)"
proof -
  have emit: "\<exists>es. committed (drop_events (emit_drop_event env a b c d e f s)) =
           committed (drop_events s) @ es \<and>
         list_all (\<lambda>e. src_port e = 0 \<and> dst_port e = 0) es \<and>
         (bpf_ringbuf_reserve (drop_events s) \<noteq> None \<longrightarrow> length es = 1)" for a b c d e f
  proof (cases "bpf_ringbuf_reserve (drop_events s) = None")
    case True
    then show ?thesis by (simp add: emit_drop_event_full)
  next
    case False
    then show ?thesis by (simp add: emit_drop_event_committed)
  qed
  have "\<exists>es. committed (drop_events (snd (tracepoint_kfree_skb env ctx s))) =
           committed (drop_events s) @ es \<and>
         list_all (\<lambda>e. src_port e = 0 \<and> dst_port e = 0) es"
    using emit [of 0 0 0 _ DROP_REASON_KERNEL 0]
    by (auto simp add: tracepoint_kfree_skb_def split: option.split)
  with emit show ?thesis by blast
qed

theorem drop_event_ports_zero_witness:
  "\<exists>es. committed (drop_events (emit_drop_event env0 77 1 2 1500 2 1 (loaded_maps 1 0))) = es \<and>
        list_all (\<lambda>e. src_port e = 0 \<and> dst_port e = 0) es \<and> length es = 1"
  using drop_event_ports_zero
      [of env0 77 1 2 1500 2 1 "loaded_maps 1 0" "\<lparr>skbaddr = None, location = 0\<rparr>"]
  by (simp add: loaded_maps_def bpf_ringbuf_reserve_def)

end
